theory Spec2Isabelle
  imports Complex_Main "HOL-Library.Char_ord" "HOL-Library.List_Lexorder"
begin

section \<open>Data model\<close>

text \<open>
  The Go sources declare roles, access tiers and verification outcomes as named string
  types with constants (\<^verbatim>\<open>type UserRole string\<close>), so they are strings here and the
  constants are definitions.

  Currency amounts are \<^verbatim>\<open>float64\<close> in Go and \<^verbatim>\<open>DECIMAL(10,2)\<close> in the schema.
  Every finite \<^verbatim>\<open>float64\<close> and every \<^verbatim>\<open>DECIMAL(10,2)\<close> value is a rational number,
  so amounts have type \<open>rat\<close> and Go's comparison of two amounts is the order of the
  rationals; NaN and the infinities are outside the model. What a \<^verbatim>\<open>float64\<close>
  multiplication or subtraction rounds its result to, and what a \<^verbatim>\<open>DECIMAL(10,2)\<close> column
  keeps of a value written to it, is decided by the Go runtime and by PostgreSQL, not by this
  repository: these three operations are the parameters \<open>numerics\<close> of the model. The
  constants 0.5 and 1.5 of the sources are exact in \<^verbatim>\<open>float64\<close>.
\<close>

type_synonym UserRole = string

definition RolePublic :: UserRole where "RolePublic = ''public''"
definition RoleInstitutionUser :: UserRole where "RoleInstitutionUser = ''institution_user''"
definition RoleInstitutionAdmin :: UserRole where "RoleInstitutionAdmin = ''institution_admin''"
definition RoleVerifier :: UserRole where "RoleVerifier = ''verifier''"
definition RoleMasterAdmin :: UserRole where "RoleMasterAdmin = ''master_admin''"

type_synonym AccessLevel = string

definition AccessLevelPublic :: AccessLevel where "AccessLevelPublic = ''public''"
definition AccessLevelRestricted :: AccessLevel where "AccessLevelRestricted = ''restricted''"
definition AccessLevelGovernment :: AccessLevel where "AccessLevelGovernment = ''government''"
definition AccessLevelFinancial :: AccessLevel where "AccessLevelFinancial = ''financial''"

type_synonym VerificationStatus = string

definition VerificationValid :: VerificationStatus where "VerificationValid = ''valid''"
definition VerificationInvalid :: VerificationStatus where "VerificationInvalid = ''invalid''"
definition VerificationSuspicious :: VerificationStatus where "VerificationSuspicious = ''suspicious''"
definition VerificationNotFound :: VerificationStatus where "VerificationNotFound = ''not_found''"
definition VerificationRestricted :: VerificationStatus where "VerificationRestricted = ''restricted''"

text \<open>
  A row of the \<^verbatim>\<open>users\<close> table, with the columns the verification service reads or
  writes. The primary key \<^verbatim>\<open>id\<close> is the key of the \<open>users\<close> map of the store.
\<close>

record User =
  Role :: UserRole
  WalletBalance :: rat
  VerificationCount :: int
  FreeVerificationsEarned :: int
  IsActive :: bool

record Bill =
  Bill_ID :: string
  BillNumber :: string
  BillType :: string
  AccessLevel :: AccessLevel
  IssuerID :: string
  IssuerName :: string
  BillData :: string
  Amount :: rat
  Currency :: string
  IssueDate :: string
  IsDeleted :: bool

type_synonym revealed = "(string \<times> string list) list"

record Verification =
  V_BillID :: "string option"
  V_BillNumber :: string
  VerifierID :: "string option"
  VerifierIP :: "string option"
  VerifierUserAgent :: "string option"
  AccessLevelUsed :: AccessLevel
  DataRevealed :: "revealed option"
  AmountCharged :: rat
  WasFree :: bool
  PricingRuleApplied :: string
  VerificationStatus :: VerificationStatus
  BlockchainVerified :: bool
  ResponseTimeMs :: int

text \<open>
  \<^verbatim>\<open>VerifyBillResponse.Details\<close> is a \<^verbatim>\<open>map[string]interface{}\<close>: absent, the decoded
  bill payload, or the two-entry map of amount and currency.
\<close>

datatype 'd details = NoDetails | BillDataDetails 'd | AmountCurrency rat string

record 'd VerifyBillResponse =
  Success :: bool
  R_BillNumber :: string
  Status :: string
  R_IssuerName :: string
  R_IssueDate :: string
  R_BillType :: string
  Message :: string
  Details :: "'d details"
  Fee :: rat

record PricingConfig =
  BillGenerationFee :: rat
  VerificationMinFee :: rat
  VerificationMaxFee :: rat
  VerificationPercentage :: rat
  LoyaltyFreeEveryN :: int

record numerics =
  mul64 :: "rat \<Rightarrow> rat \<Rightarrow> rat"
  sub64 :: "rat \<Rightarrow> rat \<Rightarrow> rat"
  decimal2 :: "rat \<Rightarrow> rat"

text \<open>
  \<open>mul64\<close> and \<open>sub64\<close> are \<^verbatim>\<open>*\<close> and \<^verbatim>\<open>-\<close> on \<^verbatim>\<open>float64\<close>; \<open>decimal2 x\<close> is the
  amount a later \<^verbatim>\<open>SELECT\<close> reads from a \<^verbatim>\<open>DECIMAL(10,2)\<close> column after \<open>x\<close> was
  written to it.
\<close>

text \<open>
  The values \<^verbatim>\<open>config.Load\<close> uses when no environment variable overrides them
  (\<open>1/100\<close> stands for the \<^verbatim>\<open>float64\<close> of the literal 0.01).
\<close>

definition defaultPricing :: PricingConfig where
  "defaultPricing =
     \<lparr>BillGenerationFee = 1/2, VerificationMinFee = 1, VerificationMaxFee = 10,
      VerificationPercentage = 1/100, LoyaltyFreeEveryN = 10\<rparr>"

text \<open>
  Errors are the \<^verbatim>\<open>fmt.Errorf\<close> values of the sources; a constructor with an
  argument of type \<open>error\<close> is a wrapping \<^verbatim>\<open>%w\<close>.
\<close>

datatype error =
    ErrUserNotFound
  | ErrBillNotFound
  | ErrNoRows
  | ErrFailedToGetUser error
  | ErrInsufficientBalance rat rat
  | ErrFailedToDeduct error
  | ErrFailedToIncrement error

text \<open>The database: the three tables the verification service touches.\<close>

record store =
  users :: "string \<rightharpoonup> User"
  bills :: "Bill list"
  verifications :: "Verification list"

section \<open>Repositories\<close>

text \<open>\<^verbatim>\<open>SELECT * FROM users WHERE id = $1 AND is_active = true\<close>\<close>

definition GetByID :: "store \<Rightarrow> string \<Rightarrow> error + User" where
  "GetByID st uid =
     (case users st uid of
        None \<Rightarrow> Inl ErrUserNotFound
      | Some user \<Rightarrow> if IsActive user then Inr user else Inl ErrUserNotFound)"

text \<open>
  \<^verbatim>\<open>UPDATE users SET wallet_balance = $1 WHERE id = $2\<close>; no row affected is the
  error \<^verbatim>\<open>user not found\<close>. The column is \<^verbatim>\<open>wallet_balance DECIMAL(10,2)\<close>: the row
  keeps \<open>decimal2\<close> of the value written.
\<close>

definition UpdateWalletBalance :: "numerics \<Rightarrow> store \<Rightarrow> string \<Rightarrow> rat \<Rightarrow> error + store" where
  "UpdateWalletBalance nm st uid newBalance =
     (case users st uid of
        None \<Rightarrow> Inl ErrUserNotFound
      | Some user \<Rightarrow>
          Inr (st\<lparr>users := (users st)(uid \<mapsto>
                 user\<lparr>WalletBalance := decimal2 nm newBalance\<rparr>)\<rparr>))"

text \<open>
  One transaction: \<^verbatim>\<open>verification_count = verification_count + 1 RETURNING
  verification_count\<close>, then, when \<^verbatim>\<open>newCount%10 == 0\<close>, \<^verbatim>\<open>free_verifications_earned + 1\<close>.
  The count is never negative (a \<^verbatim>\<open>CHECK\<close> of the schema), where Go's \<^verbatim>\<open>%\<close> and
  \<open>mod\<close> agree; both are zero exactly on the multiples of ten in any case.
\<close>

definition IncrementVerificationCount :: "store \<Rightarrow> string \<Rightarrow> error + (bool \<times> store)" where
  "IncrementVerificationCount st uid =
     (case users st uid of
        None \<Rightarrow> Inl (ErrFailedToIncrement ErrNoRows)
      | Some user \<Rightarrow>
          let newCount = VerificationCount user + 1;
              user1 = user\<lparr>VerificationCount := newCount\<rparr>
          in if newCount mod 10 = 0
             then Inr (True,
                    st\<lparr>users := (users st)(uid \<mapsto>
                       user1\<lparr>FreeVerificationsEarned := FreeVerificationsEarned user1 + 1\<rparr>)\<rparr>)
             else Inr (False, st\<lparr>users := (users st)(uid \<mapsto> user1)\<rparr>))"

text \<open>\<^verbatim>\<open>SELECT * FROM bills WHERE bill_number = $1 AND is_deleted = false\<close>\<close>

definition GetByBillNumber :: "store \<Rightarrow> string \<Rightarrow> error + Bill" where
  "GetByBillNumber st billNumber =
     (case find (\<lambda>b. BillNumber b = billNumber \<and> \<not> IsDeleted b) (bills st) of
        None \<Rightarrow> Inl ErrBillNotFound
      | Some bill \<Rightarrow> Inr bill)"

text \<open>
  \<^verbatim>\<open>INSERT INTO verifications\<close>: the audit log only grows. The column is
  \<^verbatim>\<open>amount_charged DECIMAL(10,2)\<close>.
\<close>

definition Create :: "numerics \<Rightarrow> store \<Rightarrow> Verification \<Rightarrow> store" where
  "Create nm st verification =
     st\<lparr>verifications := verifications st @
          [verification\<lparr>AmountCharged := decimal2 nm (AmountCharged verification)\<rparr>]\<rparr>"

section \<open>Verification service\<close>

definition calculatePrice ::
  "numerics \<Rightarrow> PricingConfig \<Rightarrow> store \<Rightarrow> string option \<Rightarrow> rat \<Rightarrow> AccessLevel \<Rightarrow>
   rat \<times> bool \<times> string" where
  "calculatePrice nm cfg st userID billAmount accessLevel =
     (if (case userID of
            None \<Rightarrow> False
          | Some uid \<Rightarrow>
              (case GetByID st uid of
                 Inl err \<Rightarrow> False
               | Inr user \<Rightarrow> FreeVerificationsEarned user > 0))
      then (0, True, ''loyalty_free'')
      else
        let percentagePrice = mul64 nm billAmount (VerificationPercentage cfg);
            percentagePrice = mul64 nm percentagePrice (1/2);
            minFee = VerificationMinFee cfg;
            maxFee = VerificationMaxFee cfg;
            (finalPrice, pricingRule) =
              (if percentagePrice < minFee then (minFee, ''minimum_fee'')
               else if percentagePrice > maxFee then (maxFee, ''maximum_fee_capped'')
               else (percentagePrice, ''percentage_1_percent''));
            (finalPrice, pricingRule) =
              (if accessLevel = AccessLevelRestricted
               then (mul64 nm finalPrice (3/2), ''restricted_access_premium'')
               else if accessLevel = AccessLevelGovernment \<or> accessLevel = AccessLevelFinancial
               then (maxFee, ''government_financial_premium'')
               else (finalPrice, pricingRule));
            finalPrice = (if finalPrice < minFee then minFee else finalPrice);
            finalPrice = (if finalPrice > maxFee then maxFee else finalPrice)
        in (finalPrice, False, pricingRule))"

definition determineAccessLevel :: "UserRole \<Rightarrow> Bill \<Rightarrow> string" where
  "determineAccessLevel userRole bill =
     (if AccessLevel bill = AccessLevelPublic then ''full''
      else if AccessLevel bill = AccessLevelRestricted then
        (if userRole = RoleInstitutionUser \<or> userRole = RoleInstitutionAdmin \<or>
            userRole = RoleVerifier \<or> userRole = RoleMasterAdmin
         then ''full'' else ''limited'')
      else if AccessLevel bill = AccessLevelGovernment \<or> AccessLevel bill = AccessLevelFinancial then
        (if userRole = RoleVerifier \<or> userRole = RoleMasterAdmin then ''full'' else ''none'')
      else ''limited'')"

text \<open>
  \<^verbatim>\<open>json.Unmarshal\<close> of the stored payload is a parameter: \<open>None\<close> is a decoding error,
  after which \<^verbatim>\<open>Details\<close> stays absent.
\<close>

definition buildVerificationResponse ::
  "(string \<Rightarrow> 'd option) \<Rightarrow> Bill \<Rightarrow> string \<Rightarrow> rat \<Rightarrow> 'd VerifyBillResponse" where
  "buildVerificationResponse unmarshal bill accessLevel fee =
     (let response =
        \<lparr>Success = True, R_BillNumber = BillNumber bill, Status = ''valid'',
         R_IssuerName = IssuerName bill, R_IssueDate = IssueDate bill,
         R_BillType = BillType bill,
         Message = ''This bill is registered and verified in the EPR system.'',
         Details = NoDetails, Fee = fee\<rparr>
      in if accessLevel = ''full'' then
           (case unmarshal (BillData bill) of
              Some billData \<Rightarrow> response\<lparr>Details := BillDataDetails billData\<rparr>
            | None \<Rightarrow> response)
         else if accessLevel = ''limited'' then
           response\<lparr>Details := AmountCurrency (Amount bill) (Currency bill)\<rparr>
         else if accessLevel = ''none'' then
           response\<lparr>Status := ''restricted'',
             Message := ''This bill requires institutional verifier access to view full details.''\<rparr>
         else response)"

definition getRevealedFields :: "string \<Rightarrow> revealed" where
  "getRevealedFields accessLevel =
     (if accessLevel = ''full'' then
        [(''fields_shown'', [''all'']), (''fields_hidden'', [])]
      else if accessLevel = ''limited'' then
        [(''fields_shown'', [''bill_number'', ''issuer_name'', ''issue_date'', ''bill_type'', ''amount'']),
         (''fields_hidden'', [''recipient_details'', ''line_items'', ''sensitive_data''])]
      else if accessLevel = ''none'' then
        [(''fields_shown'', [''bill_number'', ''issuer_name'', ''bill_type'']),
         (''fields_hidden'', [''all_details''])]
      else [])"

definition recordVerification ::
  "numerics \<Rightarrow> store \<Rightarrow> string option \<Rightarrow> string option \<Rightarrow> string \<Rightarrow> rat \<Rightarrow> bool \<Rightarrow> VerificationStatus \<Rightarrow>
   revealed option \<Rightarrow> string \<Rightarrow> string \<Rightarrow> int \<Rightarrow> store" where
  "recordVerification nm st userID billID billNumber fee wasFree status dataRevealed ip userAgent
     responseTime =
     (let accessLevel =
        (case userID of
           None \<Rightarrow> AccessLevelPublic
         | Some uid \<Rightarrow>
             (case GetByID st uid of
                Inl err \<Rightarrow> AccessLevelPublic
              | Inr user \<Rightarrow>
                  if Role user = RoleVerifier then AccessLevelGovernment
                  else if Role user = RoleInstitutionUser \<or> Role user = RoleInstitutionAdmin
                  then AccessLevelRestricted
                  else AccessLevelPublic));
          verification =
            \<lparr>V_BillID = billID, V_BillNumber = billNumber, VerifierID = userID,
             VerifierIP = Some ip, VerifierUserAgent = Some userAgent,
             AccessLevelUsed = accessLevel, DataRevealed = dataRevealed,
             AmountCharged = fee, WasFree = wasFree, PricingRuleApplied = ''standard'',
             VerificationStatus = status, BlockchainVerified = False,
             ResponseTimeMs = responseTime\<rparr>
      in Create nm st verification)"

text \<open>
  The settlement step: the block of \<^verbatim>\<open>VerifyBill\<close> guarded by
  \<^verbatim>\<open>userID != nil && !wasFree\<close>. It reads the user, compares the balance with the
  fee, writes the debited balance and increments the verification count; a failure of
  the increment is logged and does not fail the call.
\<close>

definition Settle :: "numerics \<Rightarrow> store \<Rightarrow> string \<Rightarrow> rat \<Rightarrow> error + store" where
  "Settle nm st uid fee =
     (case GetByID st uid of
        Inl err \<Rightarrow> Inl (ErrFailedToGetUser err)
      | Inr user \<Rightarrow>
          if WalletBalance user < fee
          then Inl (ErrInsufficientBalance fee (WalletBalance user))
          else
            let newBalance = sub64 nm (WalletBalance user) fee
            in (case UpdateWalletBalance nm st uid newBalance of
                  Inl err \<Rightarrow> Inl (ErrFailedToDeduct err)
                | Inr st1 \<Rightarrow>
                    (case IncrementVerificationCount st1 uid of
                       Inl err \<Rightarrow> Inr st1
                     | Inr (earnedFree, st2) \<Rightarrow> Inr st2)))"

text \<open>
  \<^verbatim>\<open>VerifyBill\<close> returns the response or the error, and the database after the call.
  The elapsed time the audit record stores is read from the clock, so it is an argument.
\<close>

definition VerifyBill ::
  "(string \<Rightarrow> 'd option) \<Rightarrow> numerics \<Rightarrow> PricingConfig \<Rightarrow> store \<Rightarrow> string option \<Rightarrow> string \<Rightarrow>
   string \<Rightarrow> string \<Rightarrow> UserRole \<Rightarrow> int \<Rightarrow> (error + 'd VerifyBillResponse) \<times> store" where
  "VerifyBill unmarshal nm cfg st userID billNumber ip userAgent userRole elapsed =
     (case GetByBillNumber st billNumber of
        Inl err \<Rightarrow>
          (let response =
             \<lparr>Success = True, R_BillNumber = billNumber, Status = ''invalid'',
              R_IssuerName = [], R_IssueDate = [], R_BillType = [],
              Message = ''This bill is not registered in the EPR system. It may be fake.'',
              Details = NoDetails, Fee = VerificationMinFee cfg\<rparr>
           in (Inr response,
               if userID \<noteq> None
               then recordVerification nm st userID None billNumber (Fee response) False
                      VerificationNotFound None ip userAgent elapsed
               else st))
      | Inr bill \<Rightarrow>
          (let accessLevel = determineAccessLevel userRole bill;
               (fee, wasFree, pricingRule) =
                  calculatePrice nm cfg st userID (Amount bill) (AccessLevel bill)
           in case (if userID \<noteq> None \<and> \<not> wasFree then Settle nm st (the userID) fee else Inr st) of
                Inl err \<Rightarrow> (Inl err, st)
              | Inr st1 \<Rightarrow>
                  (let response = buildVerificationResponse unmarshal bill accessLevel fee;
                       dataRevealed = getRevealedFields accessLevel;
                       (verificationStatus, response) =
                          (if accessLevel = ''none''
                           then (VerificationRestricted,
                                 response\<lparr>Status := ''restricted'',
                                   Message := ''This bill requires institutional access to view full details.''\<rparr>)
                           else (VerificationValid, response))
                   in (Inr response,
                       if userID \<noteq> None
                       then recordVerification nm st1 userID (Some (Bill_ID bill)) billNumber fee
                              wasFree verificationStatus (Some dataRevealed) ip userAgent elapsed
                       else st1))))"

section \<open>Settlement sequences\<close>







text \<open>
  Debiting a list of fees in order, as the code does it: each debit is the
  \<^verbatim>\<open>float64\<close> subtraction, kept by the \<^verbatim>\<open>DECIMAL(10,2)\<close> column.
\<close>

fun debit_all :: "numerics \<Rightarrow> rat \<Rightarrow> rat list \<Rightarrow> rat" where
  "debit_all nm balance [] = balance"
| "debit_all nm balance (fee # fees) = debit_all nm (decimal2 nm (sub64 nm balance fee)) fees"

section \<open>The pricing rule as the specification words it\<close>

text \<open>
  The requester has a banked loyalty credit: an authenticated requester whose row can be
  read and whose \<^verbatim>\<open>free_verifications_earned\<close> is positive.
\<close>

definition loyaltyCreditAvailable :: "store \<Rightarrow> string option \<Rightarrow> bool" where
  "loyaltyCreditAvailable st userID =
     (case userID of
        None \<Rightarrow> False
      | Some uid \<Rightarrow>
          (case users st uid of
             None \<Rightarrow> False
           | Some user \<Rightarrow> IsActive user \<and> 0 < FreeVerificationsEarned user))"

definition clampFee :: "rat \<Rightarrow> rat \<Rightarrow> rat \<Rightarrow> rat" where
  "clampFee minFee maxFee x = max minFee (min maxFee x)"

definition spec_base :: "numerics \<Rightarrow> PricingConfig \<Rightarrow> rat \<Rightarrow> rat" where
  "spec_base nm cfg billAmount =
     mul64 nm (mul64 nm billAmount (VerificationPercentage cfg)) (1/2)"

definition spec_clampLabel :: "PricingConfig \<Rightarrow> rat \<Rightarrow> string" where
  "spec_clampLabel cfg base =
     (if base < VerificationMinFee cfg then ''minimum_fee''
      else if VerificationMaxFee cfg < base then ''maximum_fee_capped''
      else ''percentage_1_percent'')"

definition spec_price :: "numerics \<Rightarrow> PricingConfig \<Rightarrow> rat \<Rightarrow> AccessLevel \<Rightarrow> rat \<times> string" where
  "spec_price nm cfg billAmount tier =
     (let minFee = VerificationMinFee cfg;
          maxFee = VerificationMaxFee cfg;
          clamped = clampFee minFee maxFee (spec_base nm cfg billAmount)
      in if tier = AccessLevelRestricted
         then (clampFee minFee maxFee (mul64 nm clamped (3/2)), ''restricted_access_premium'')
         else if tier = AccessLevelGovernment \<or> tier = AccessLevelFinancial
         then (maxFee, ''government_financial_premium'')
         else (clamped, spec_clampLabel cfg (spec_base nm cfg billAmount)))"

section \<open>Content hasher\<close>

text \<open>
  A Go value of type \<^verbatim>\<open>interface{}\<close> as \<^verbatim>\<open>normalizeJSON\<close> sees it: a
  \<^verbatim>\<open>map[string]interface{}\<close>, a \<^verbatim>\<open>[]interface{}\<close>, or anything else (a leaf). A map
  is an association list in some iteration order; a Go map holds each key once, which
  \<open>wf_json\<close> says.
\<close>

datatype 'a json = Leaf 'a | Arr "'a json list" | Obj "(string \<times> 'a json) list"

fun wf_json :: "'a json \<Rightarrow> bool" where
  "wf_json (Leaf a) = True"
| "wf_json (Arr xs) = list_all wf_json xs"
| "wf_json (Obj kvs) = (distinct (map fst kvs) \<and> list_all (\<lambda>kv. wf_json (snd kv)) kvs)"

text \<open>
  Equality as unordered-key trees: the same leaves, the same sequences in the same
  order, the same maps up to the order of their keys.
\<close>

fun tree_eq :: "'a json \<Rightarrow> 'a json \<Rightarrow> bool" where
  "tree_eq (Leaf a) (Leaf b) = (a = b)"
| "tree_eq (Arr xs) (Arr ys) = list_all2 tree_eq xs ys"
| "tree_eq (Obj xs) (Obj ys) =
     (set (map fst xs) = set (map fst ys) \<and>
      list_all (\<lambda>kv. case map_of ys (fst kv) of None \<Rightarrow> False | Some w \<Rightarrow> tree_eq (snd kv) w) xs)"
| "tree_eq d d' = False"

text \<open>
  \<^verbatim>\<open>normalizeJSON\<close>: collect the keys, \<^verbatim>\<open>sort.Strings\<close> them (byte-wise
  lexicographic order), and insert \<^verbatim>\<open>normalizeJSON(v[k])\<close> under each key in that order.
\<close>

function normalizeJSON :: "'a json \<Rightarrow> 'a json" where
  "normalizeJSON (Obj v) =
     (let keys = map fst v;
          keys = sort keys
      in Obj (map (\<lambda>k. (k, normalizeJSON (the (map_of v k)))) keys))"
| "normalizeJSON (Arr v) = Arr (map normalizeJSON v)"
| "normalizeJSON (Leaf v) = Leaf v"
  by pat_completeness auto
termination
proof (relation "measure size")
  show "wf (measure size)" by simp
next
  fix v :: "(string \<times> 'a json) list" and k :: string and keys sorted_keys :: "string list"
  assume "keys = map fst v" and "sorted_keys = sort keys" and "k \<in> set sorted_keys"
  then have "k \<in> fst ` set v" by simp
  then obtain w where w: "map_of v k = Some w"
    by (cases "map_of v k") (auto simp: map_of_eq_None_iff)
  have "size u < Suc (size_list (size_prod (\<lambda>x. 0) size) kvs)"
    if "map_of kvs k = Some u" for kvs :: "(string \<times> 'a json) list" and u
    using that by (induction kvs) (auto split: if_splits)
  from this[OF w] w show "(the (map_of v k), Obj v) \<in> measure size" by simp
next
  fix v :: "'a json list" and x :: "'a json"
  assume "x \<in> set v"
  then show "(x, Arr v) \<in> measure size"
    by (simp add: less_Suc_eq_le size_list_estimation')
qed

text \<open>
  \<^verbatim>\<open>json.Marshal\<close>, \<^verbatim>\<open>sha256.Sum256\<close> and \<^verbatim>\<open>hex.EncodeToString\<close> belong to Go's
  standard library and are parameters; \<open>marshal\<close> may fail.
\<close>

definition GenerateBillHash ::
  "('a json \<Rightarrow> 'e + 'b) \<Rightarrow> ('b \<Rightarrow> 'h) \<Rightarrow> ('h \<Rightarrow> string) \<Rightarrow> (string \<times> 'a json) list \<Rightarrow> 'e + string" where
  "GenerateBillHash marshal sum256 encodeToString data =
     (let normalized = normalizeJSON (Obj data)
      in case marshal normalized of
           Inl err \<Rightarrow> Inl err
         | Inr jsonBytes \<Rightarrow> Inr (encodeToString (sum256 jsonBytes)))"

definition VerifyBillHash ::
  "('a json \<Rightarrow> 'e + 'b) \<Rightarrow> ('b \<Rightarrow> 'h) \<Rightarrow> ('h \<Rightarrow> string) \<Rightarrow> (string \<times> 'a json) list \<Rightarrow> string \<Rightarrow>
   'e + bool" where
  "VerifyBillHash marshal sum256 encodeToString data expectedHash =
     (case GenerateBillHash marshal sum256 encodeToString data of
        Inl err \<Rightarrow> Inl err
      | Inr calculatedHash \<Rightarrow> Inr (calculatedHash = expectedHash))"

section \<open>Scenarios\<close>

text \<open>
  The numerics of the worked examples. PostgreSQL rounds a value to the two decimals of the
  column half away from zero. The examples use amounts on which the \<^verbatim>\<open>float64\<close>
  operations and the rational ones give the same result (\<^verbatim>\<open>1000 * 0.01\<close> is 10 in
  \<^verbatim>\<open>float64\<close>, \<^verbatim>\<open>10 * 0.5\<close> is 5, \<^verbatim>\<open>100 - 5\<close> is 95, \<^verbatim>\<open>10 - 1.125\<close> is 8.875).
\<close>

definition round_half_away :: "rat \<Rightarrow> int" where
  "round_half_away x = (if 0 \<le> x then \<lfloor>x + 1/2\<rfloor> else - \<lfloor>- x + 1/2\<rfloor>)"

definition decimal_10_2 :: "rat \<Rightarrow> rat" where
  "decimal_10_2 x = of_int (round_half_away (x * 100)) / 100"

definition scenario_numerics :: numerics where
  "scenario_numerics = \<lparr>mul64 = times, sub64 = minus, decimal2 = decimal_10_2\<rparr>"

text \<open>Concrete rows and databases for the worked examples below.\<close>

definition scenario_user :: "UserRole \<Rightarrow> rat \<Rightarrow> int \<Rightarrow> int \<Rightarrow> User" where
  "scenario_user role balance n credits =
     \<lparr>Role = role, WalletBalance = balance, VerificationCount = n,
      FreeVerificationsEarned = credits, IsActive = True\<rparr>"

definition scenario_bill :: "AccessLevel \<Rightarrow> string \<Rightarrow> Bill" where
  "scenario_bill tier issuer =
     \<lparr>Bill_ID = ''b1'', BillNumber = ''SI-2025-01-000001'', BillType = ''sales_invoice'',
      AccessLevel = tier, IssuerID = issuer, IssuerName = ''Acme'', BillData = ''{}'',
      Amount = 1000, Currency = ''INR'', IssueDate = ''2025-01-15'', IsDeleted = False\<rparr>"

definition scenario_store :: "User \<Rightarrow> Bill \<Rightarrow> store" where
  "scenario_store user bill =
     \<lparr>users = [''u1'' \<mapsto> user], bills = [bill], verifications = []\<rparr>"

text \<open>
  A configuration whose loyalty interval is 5 instead of the default 10.
\<close>

definition pricing_every_5 :: PricingConfig where
  "pricing_every_5 = defaultPricing\<lparr>LoyaltyFreeEveryN := 5\<rparr>"

text \<open>
  A document, the same document with its keys in another order, and stand-ins for the
  three library functions: a serializer that never fails and keeps the tree, the identity as
  digest, and a textual rendering as encoder.
\<close>

fun demo_encode :: "int json \<Rightarrow> string" where
  "demo_encode (Leaf n) = replicate (nat n) (CHR ''i'')"
| "demo_encode (Arr xs) = ''['' @ concat (map demo_encode xs) @ '']''"
| "demo_encode (Obj kvs) =
     ''{'' @ concat (map (\<lambda>kv. fst kv @ '':'' @ demo_encode (snd kv) @ '','') kvs) @ ''}''"

definition demo_marshal :: "int json \<Rightarrow> error + int json" where
  "demo_marshal = Inr"

definition demo_doc :: "(string \<times> int json) list" where
  "demo_doc = [(''b'', Leaf 1), (''a'', Arr [Obj [(''z'', Leaf 2), (''y'', Leaf 3)]])]"

definition demo_doc_permuted :: "(string \<times> int json) list" where
  "demo_doc_permuted = [(''a'', Arr [Obj [(''y'', Leaf 3), (''z'', Leaf 2)]]), (''b'', Leaf 1)]"

section \<open>Basic facts\<close>

lemmas role_defs =
  RolePublic_def RoleInstitutionUser_def RoleInstitutionAdmin_def RoleVerifier_def
  RoleMasterAdmin_def

lemmas level_defs =
  AccessLevelPublic_def AccessLevelRestricted_def AccessLevelGovernment_def
  AccessLevelFinancial_def

lemmas status_defs =
  VerificationValid_def VerificationInvalid_def VerificationSuspicious_def
  VerificationNotFound_def VerificationRestricted_def





section \<open>Settlement steps\<close>





text \<open>
  Where the subtraction is exact and the column keeps what is written, debiting in order is
  subtracting the sum.
\<close>

lemma debit_all_exact:
  assumes "sub64 nm = minus" and "decimal2 nm = id"
  shows "debit_all nm balance fees = balance - sum_list fees"
  using assms by (induction fees arbitrary: balance) (simp_all add: algebra_simps)



section \<open>Wallet ledger\<close>





section \<open>Pricing engine\<close>

lemma loyaltyCreditAvailable_iff:
  "loyaltyCreditAvailable st userID \<longleftrightarrow>
     (case userID of None \<Rightarrow> False
      | Some uid \<Rightarrow> (case GetByID st uid of Inl err \<Rightarrow> False
                     | Inr user \<Rightarrow> FreeVerificationsEarned user > 0))"
  by (simp add: loyaltyCreditAvailable_def GetByID_def split: option.splits)

lemma calculatePrice_loyalty:
  "loyaltyCreditAvailable st userID \<Longrightarrow>
   calculatePrice nm cfg st userID billAmount tier = (0, True, ''loyalty_free'')"
  by (simp add: calculatePrice_def loyaltyCreditAvailable_iff)

lemma level_distinct:
  "AccessLevelRestricted \<noteq> AccessLevelGovernment"
  "AccessLevelRestricted \<noteq> AccessLevelFinancial"
  "AccessLevelPublic \<noteq> AccessLevelRestricted"
  "AccessLevelPublic \<noteq> AccessLevelGovernment"
  "AccessLevelPublic \<noteq> AccessLevelFinancial"
  by (simp_all add: level_defs)

lemma calculatePrice_restricted:
  assumes "VerificationMinFee cfg \<le> VerificationMaxFee cfg"
    and "\<not> loyaltyCreditAvailable st userID"
  shows "calculatePrice nm cfg st userID billAmount AccessLevelRestricted =
           (clampFee (VerificationMinFee cfg) (VerificationMaxFee cfg)
              (mul64 nm
                 (clampFee (VerificationMinFee cfg) (VerificationMaxFee cfg)
                    (spec_base nm cfg billAmount)) (3/2)),
            False, ''restricted_access_premium'')"
  using assms unfolding loyaltyCreditAvailable_iff
  by (simp add: calculatePrice_def spec_base_def clampFee_def Let_def max_def min_def)

lemma calculatePrice_gov_fin:
  assumes "VerificationMinFee cfg \<le> VerificationMaxFee cfg"
    and "\<not> loyaltyCreditAvailable st userID"
    and "tier = AccessLevelGovernment \<or> tier = AccessLevelFinancial"
  shows "calculatePrice nm cfg st userID billAmount tier =
           (VerificationMaxFee cfg, False, ''government_financial_premium'')"
  using assms unfolding loyaltyCreditAvailable_iff
  by (auto simp: calculatePrice_def Let_def level_distinct level_distinct[symmetric])

lemma calculatePrice_other:
  assumes "VerificationMinFee cfg \<le> VerificationMaxFee cfg"
    and "\<not> loyaltyCreditAvailable st userID"
    and "tier \<noteq> AccessLevelRestricted" and "tier \<noteq> AccessLevelGovernment"
    and "tier \<noteq> AccessLevelFinancial"
  shows "calculatePrice nm cfg st userID billAmount tier =
           (clampFee (VerificationMinFee cfg) (VerificationMaxFee cfg) (spec_base nm cfg billAmount),
            False, spec_clampLabel cfg (spec_base nm cfg billAmount))"
  using assms unfolding loyaltyCreditAvailable_iff
  by (simp add: calculatePrice_def spec_base_def spec_clampLabel_def clampFee_def Let_def
      max_def min_def)

lemma calculatePrice_public:
  assumes "VerificationMinFee cfg \<le> VerificationMaxFee cfg"
    and "\<not> loyaltyCreditAvailable st userID"
  shows "calculatePrice nm cfg st userID billAmount AccessLevelPublic =
           (clampFee (VerificationMinFee cfg) (VerificationMaxFee cfg) (spec_base nm cfg billAmount),
            False, spec_clampLabel cfg (spec_base nm cfg billAmount))"
  using calculatePrice_other[OF assms, where tier = AccessLevelPublic and billAmount = billAmount and nm = nm]
  by (simp add: level_distinct)

lemma default_price_1000:
  "clampFee (VerificationMinFee defaultPricing) (VerificationMaxFee defaultPricing)
     (spec_base scenario_numerics defaultPricing 1000) = 5"
  "spec_clampLabel defaultPricing (spec_base scenario_numerics defaultPricing 1000) = ''percentage_1_percent''"
  by (simp_all add: spec_base_def spec_clampLabel_def clampFee_def defaultPricing_def
      scenario_numerics_def)

lemma spec_price_examples:
  "spec_price scenario_numerics defaultPricing 1000 AccessLevelPublic = (5, ''percentage_1_percent'')"
  "spec_price scenario_numerics defaultPricing 10000 AccessLevelRestricted = (10, ''restricted_access_premium'')"
  "spec_price scenario_numerics defaultPricing 100 AccessLevelGovernment = (10, ''government_financial_premium'')"
  by (simp_all add: spec_price_def spec_base_def spec_clampLabel_def clampFee_def Let_def
      level_defs defaultPricing_def scenario_numerics_def)

text \<open>
  Claim C4. When the requester has no banked loyalty credit and the minimum fee does not
  exceed the maximum fee, \<^verbatim>\<open>calculatePrice\<close> returns the fee and the label of
  \<open>spec_price\<close>, whatever the \<^verbatim>\<open>float64\<close> multiplication rounds to: the base
  \<open>billAmount * percentage * 0.5\<close> clamped into \<open>[minFee, maxFee]\<close>; for a restricted
  bill that value times 1.5, clamped again, with the label
  \<^verbatim>\<open>restricted_access_premium\<close>; for a government or financial bill exactly \<open>maxFee\<close>
  with the label \<^verbatim>\<open>government_financial_premium\<close>; for a public bill the clamped base
  with the label \<^verbatim>\<open>minimum_fee\<close>, \<^verbatim>\<open>maximum_fee_capped\<close> or
  \<^verbatim>\<open>percentage_1_percent\<close>. The products are those of the code, \<open>mul64\<close>. The fee is
  never reported as free.
\<close>

theorem calculatePrice_non_loyalty:
  assumes "VerificationMinFee cfg \<le> VerificationMaxFee cfg"
    and "\<not> loyaltyCreditAvailable st userID"
  shows "calculatePrice nm cfg st userID billAmount tier =
           (fst (spec_price nm cfg billAmount tier), False, snd (spec_price nm cfg billAmount tier))"
proof -
  consider (r) "tier = AccessLevelRestricted"
    | (g) "tier = AccessLevelGovernment \<or> tier = AccessLevelFinancial"
    | (o) "tier \<noteq> AccessLevelRestricted" "tier \<noteq> AccessLevelGovernment"
          "tier \<noteq> AccessLevelFinancial"
    by blast
  then show ?thesis
  proof cases
    case r
    then show ?thesis
      using calculatePrice_restricted[OF assms] by (simp add: spec_price_def Let_def)
  next
    case g
    then have "tier \<noteq> AccessLevelRestricted" using level_distinct by auto
    with g show ?thesis
      using calculatePrice_gov_fin[OF assms g] by (simp add: spec_price_def Let_def)
  next
    case o
    then show ?thesis
      using calculatePrice_other[OF assms o] by (simp add: spec_price_def Let_def)
  qed
qed

text \<open>
  The scenarios of the specification: amount 1000 at 1 percent, minimum 1, maximum 10, public
  tier, is fee 5 with \<^verbatim>\<open>percentage_1_percent\<close>; a restricted bill of 10000 is fee 10.
\<close>

theorem calculatePrice_non_loyalty_witness:
  "VerificationMinFee defaultPricing \<le> VerificationMaxFee defaultPricing \<and>
   \<not> loyaltyCreditAvailable
       (scenario_store (scenario_user RolePublic 10 0 0) (scenario_bill AccessLevelPublic ''u2'')) None \<and>
   calculatePrice scenario_numerics defaultPricing
       (scenario_store (scenario_user RolePublic 10 0 0) (scenario_bill AccessLevelPublic ''u2''))
       None 1000 AccessLevelPublic = (5, False, ''percentage_1_percent'') \<and>
   calculatePrice scenario_numerics defaultPricing
       (scenario_store (scenario_user RolePublic 10 0 0) (scenario_bill AccessLevelPublic ''u2''))
       None 10000 AccessLevelRestricted = (10, False, ''restricted_access_premium'') \<and>
   calculatePrice scenario_numerics defaultPricing
       (scenario_store (scenario_user RolePublic 10 0 0) (scenario_bill AccessLevelPublic ''u2''))
       None 100 AccessLevelGovernment = (10, False, ''government_financial_premium'')"
proof -
  let ?st = "scenario_store (scenario_user RolePublic 10 0 0) (scenario_bill AccessLevelPublic ''u2'')"
  have m: "VerificationMinFee defaultPricing \<le> VerificationMaxFee defaultPricing"
    by (simp add: defaultPricing_def)
  have n: "\<not> loyaltyCreditAvailable ?st None"
    by (simp add: loyaltyCreditAvailable_def)
  have "calculatePrice scenario_numerics defaultPricing ?st None 1000 AccessLevelPublic = (5, False, ''percentage_1_percent'')"
    using calculatePrice_non_loyalty[OF m n, of scenario_numerics 1000 AccessLevelPublic]
    by (simp add: spec_price_examples)
  moreover have "calculatePrice scenario_numerics defaultPricing ?st None 10000 AccessLevelRestricted =
      (10, False, ''restricted_access_premium'')"
    using calculatePrice_non_loyalty[OF m n, of scenario_numerics 10000 AccessLevelRestricted]
    by (simp add: spec_price_examples)
  moreover have "calculatePrice scenario_numerics defaultPricing ?st None 100 AccessLevelGovernment =
      (10, False, ''government_financial_premium'')"
    using calculatePrice_non_loyalty[OF m n, of scenario_numerics 100 AccessLevelGovernment]
    by (simp add: spec_price_examples)
  ultimately show ?thesis using m n by blast
qed

lemma calculatePrice_free_fee:
  assumes "calculatePrice nm cfg st userID billAmount tier = (fee, True, rule)"
  shows "fee = 0"
proof (cases "loyaltyCreditAvailable st userID")
  case True
  from calculatePrice_loyalty[OF True] assms show ?thesis by simp
next
  case False
  then have "fst (snd (calculatePrice nm cfg st userID billAmount tier)) = False"
    unfolding loyaltyCreditAvailable_iff
    by (simp add: calculatePrice_def Let_def split_beta)
  with assms show ?thesis by simp
qed

section \<open>Scenario facts\<close>

lemma scenario_GetByID:
  "GetByID (scenario_store (scenario_user role balance n credits) bill) ''u1'' =
     Inr (scenario_user role balance n credits)"
  by (simp add: GetByID_def scenario_store_def scenario_user_def)

lemma scenario_GetByBillNumber:
  "GetByBillNumber (scenario_store user (scenario_bill tier issuer)) ''SI-2025-01-000001'' =
     Inr (scenario_bill tier issuer)"
  by (simp add: GetByBillNumber_def scenario_store_def scenario_bill_def)

lemma scenario_GetByBillNumber_missing:
  "GetByBillNumber (scenario_store user (scenario_bill tier issuer)) ''XX-0000-00-000000'' =
     Inl ErrBillNotFound"
  by (simp add: GetByBillNumber_def scenario_store_def scenario_bill_def)

lemma scenario_no_credit:
  "\<not> loyaltyCreditAvailable (scenario_store (scenario_user role balance n 0) bill) (Some ''u1'')"
  by (simp add: loyaltyCreditAvailable_def scenario_store_def scenario_user_def)

lemma scenario_credit:
  "loyaltyCreditAvailable (scenario_store (scenario_user role balance n 1) bill) (Some ''u1'')"
  by (simp add: loyaltyCreditAvailable_def scenario_store_def scenario_user_def)

lemma default_min_max: "VerificationMinFee defaultPricing \<le> VerificationMaxFee defaultPricing"
  by (simp add: defaultPricing_def)

lemma scenario_price_public:
  "calculatePrice scenario_numerics defaultPricing (scenario_store (scenario_user role balance n 0) bill)
     (Some ''u1'') 1000 AccessLevelPublic = (5, False, ''percentage_1_percent'')"
  using calculatePrice_public[OF default_min_max scenario_no_credit]
  by (simp add: default_price_1000)

lemma scenario_bill_fields:
  "Amount (scenario_bill tier issuer) = 1000"
  "AccessLevel (scenario_bill tier issuer) = tier"
  "IssuerID (scenario_bill tier issuer) = issuer"
  "Bill_ID (scenario_bill tier issuer) = ''b1''"
  by (simp_all add: scenario_bill_def)

lemma scenario_user_fields:
  "WalletBalance (scenario_user role balance n credits) = balance"
  "VerificationCount (scenario_user role balance n credits) = n"
  "FreeVerificationsEarned (scenario_user role balance n credits) = credits"
  "Role (scenario_user role balance n credits) = role"
  "IsActive (scenario_user role balance n credits)"
  by (simp_all add: scenario_user_def)

section \<open>Settlement orchestrator\<close>

text \<open>
  Claim C2. The bill is found, the requester is authenticated and their row can be read,
  the balance is not negative (the schema's \<^verbatim>\<open>CHECK (wallet_balance >= 0)\<close>) and strictly
  less than the fee \<^verbatim>\<open>calculatePrice\<close> computed. Then \<^verbatim>\<open>VerifyBill\<close> returns the
  insufficient-balance error with the required and the available amount, and the database is
  the one it started from: the same wallets, the same counters, no audit record added.
\<close>

theorem VerifyBill_insufficient_balance:
  assumes "GetByBillNumber st billNumber = Inr bill"
    and "GetByID st uid = Inr user"
    and "0 \<le> WalletBalance user"
    and "calculatePrice nm cfg st (Some uid) (Amount bill) (AccessLevel bill) = (fee, wasFree, rule)"
    and "WalletBalance user < fee"
  shows "VerifyBill unmarshal nm cfg st (Some uid) billNumber ip userAgent userRole elapsed =
           (Inl (ErrInsufficientBalance fee (WalletBalance user)), st)"
proof -
  have nf: "\<not> wasFree"
  proof
    assume "wasFree"
    with assms(4) have "fee = 0" by (auto dest: calculatePrice_free_fee)
    with assms(3,5) show False by simp
  qed
  have "Settle nm st uid fee = Inl (ErrInsufficientBalance fee (WalletBalance user))"
    using assms(2,5) by (simp add: Settle_def)
  with assms(1,4) nf show ?thesis
    by (simp add: VerifyBill_def)
qed

theorem VerifyBill_insufficient_balance_witness:
  "GetByBillNumber (scenario_store (scenario_user RolePublic 3 0 0) (scenario_bill AccessLevelPublic ''u2''))
      ''SI-2025-01-000001'' = Inr (scenario_bill AccessLevelPublic ''u2'') \<and>
   GetByID (scenario_store (scenario_user RolePublic 3 0 0) (scenario_bill AccessLevelPublic ''u2''))
      ''u1'' = Inr (scenario_user RolePublic 3 0 0) \<and>
   WalletBalance (scenario_user RolePublic 3 0 0) = 3 \<and>
   calculatePrice scenario_numerics defaultPricing
      (scenario_store (scenario_user RolePublic 3 0 0) (scenario_bill AccessLevelPublic ''u2''))
      (Some ''u1'') 1000 AccessLevelPublic = (5, False, ''percentage_1_percent'') \<and>
   VerifyBill Some scenario_numerics defaultPricing
      (scenario_store (scenario_user RolePublic 3 0 0) (scenario_bill AccessLevelPublic ''u2''))
      (Some ''u1'') ''SI-2025-01-000001'' ''10.0.0.1'' ''curl'' RolePublic 12 =
     (Inl (ErrInsufficientBalance 5 3),
      scenario_store (scenario_user RolePublic 3 0 0) (scenario_bill AccessLevelPublic ''u2''))"
proof -
  let ?u = "scenario_user RolePublic 3 0 0"
  let ?b = "scenario_bill AccessLevelPublic ''u2''"
  let ?st = "scenario_store ?u ?b"
  have b: "GetByBillNumber ?st ''SI-2025-01-000001'' = Inr ?b" by (rule scenario_GetByBillNumber)
  have u: "GetByID ?st ''u1'' = Inr ?u" by (rule scenario_GetByID)
  have nn: "0 \<le> WalletBalance ?u" by (simp add: scenario_user_fields)
  have p: "calculatePrice scenario_numerics defaultPricing ?st (Some ''u1'') (Amount ?b) (AccessLevel ?b) =
      (5, False, ''percentage_1_percent'')"
    by (simp add: scenario_bill_fields scenario_price_public)
  have lt: "WalletBalance ?u < 5" by (simp add: scenario_user_fields)
  from VerifyBill_insufficient_balance[OF b u nn p lt, of Some "''10.0.0.1''" "''curl''" RolePublic 12]
  have "VerifyBill Some scenario_numerics defaultPricing ?st (Some ''u1'') ''SI-2025-01-000001'' ''10.0.0.1'' ''curl''
      RolePublic 12 = (Inl (ErrInsufficientBalance 5 3), ?st)"
    by (simp add: scenario_user_fields)
  with b u p show ?thesis by (simp add: scenario_user_fields scenario_bill_fields)
qed

lemma buildVerificationResponse_Fee:
  "Fee (buildVerificationResponse unmarshal bill accessLevel fee) = fee"
  by (simp add: buildVerificationResponse_def Let_def split: option.splits)

lemma VerifyBill_anonymous_found:
  assumes "GetByBillNumber st billNumber = Inr bill"
    and "calculatePrice nm cfg st None (Amount bill) (AccessLevel bill) = (fee, wasFree, rule)"
  shows "\<exists>response.
     VerifyBill unmarshal nm cfg st None billNumber ip userAgent userRole elapsed = (Inr response, st) \<and>
     Fee response = fee"
  using assms
  by (simp add: VerifyBill_def Let_def buildVerificationResponse_Fee)

lemma VerifyBill_anonymous_missing:
  assumes "GetByBillNumber st billNumber = Inl err"
  shows "\<exists>response.
     VerifyBill unmarshal nm cfg st None billNumber ip userAgent userRole elapsed = (Inr response, st) \<and>
     Success response \<and> Status response = ''invalid'' \<and> Fee response = VerificationMinFee cfg"
  using assms by (simp add: VerifyBill_def)

text \<open>
  Claim C10. A call of \<^verbatim>\<open>VerifyBill\<close> without a requester id always succeeds and leaves
  the whole database as it was (no wallet, no counter, no audit record), whether or not the
  bill exists; the fee of the response is the minimum fee for a missing bill and the computed
  price for a found one, reported only.
\<close>

theorem VerifyBill_anonymous_frame:
  "\<exists>response.
     VerifyBill unmarshal nm cfg st None billNumber ip userAgent userRole elapsed = (Inr response, st) \<and>
     Fee response =
       (case GetByBillNumber st billNumber of
          Inl err \<Rightarrow> VerificationMinFee cfg
        | Inr bill \<Rightarrow> fst (calculatePrice nm cfg st None (Amount bill) (AccessLevel bill)))"
proof (cases "GetByBillNumber st billNumber")
  case (Inl err)
  from VerifyBill_anonymous_missing[OF Inl] Inl show ?thesis by fastforce
next
  case (Inr bill)
  obtain fee wasFree rule where
    p: "calculatePrice nm cfg st None (Amount bill) (AccessLevel bill) = (fee, wasFree, rule)"
    by (cases "calculatePrice nm cfg st None (Amount bill) (AccessLevel bill)") auto
  from VerifyBill_anonymous_found[OF Inr p] Inr p show ?thesis by fastforce
qed

text \<open>
  A found bill whose computed fee is 5: the database is unchanged and the fee is reported.
\<close>

theorem VerifyBill_anonymous_frame_witness:
  "snd (VerifyBill Some scenario_numerics defaultPricing
      (scenario_store (scenario_user RolePublic 3 0 0) (scenario_bill AccessLevelPublic ''u2''))
      None ''SI-2025-01-000001'' ''10.0.0.1'' ''curl'' RolePublic 12) =
     scenario_store (scenario_user RolePublic 3 0 0) (scenario_bill AccessLevelPublic ''u2'') \<and>
   map_sum id Fee (fst (VerifyBill Some scenario_numerics defaultPricing
      (scenario_store (scenario_user RolePublic 3 0 0) (scenario_bill AccessLevelPublic ''u2''))
      None ''SI-2025-01-000001'' ''10.0.0.1'' ''curl'' RolePublic 12)) = Inr 5"
proof -
  let ?st = "scenario_store (scenario_user RolePublic 3 0 0) (scenario_bill AccessLevelPublic ''u2'')"
  have n: "\<not> loyaltyCreditAvailable ?st None" by (simp add: loyaltyCreditAvailable_def)
  have p: "calculatePrice scenario_numerics defaultPricing ?st None 1000 AccessLevelPublic =
      (5, False, ''percentage_1_percent'')"
    using calculatePrice_public[OF default_min_max n] by (simp add: default_price_1000)
  from VerifyBill_anonymous_frame[of Some scenario_numerics defaultPricing ?st "''SI-2025-01-000001''" "''10.0.0.1''"
      "''curl''" RolePublic 12]
  show ?thesis
    by (auto simp: scenario_GetByBillNumber scenario_bill_fields p)
qed

text \<open>
  Claim C7, as amended. For a bill number that is not registered, an anonymous call
  returns a successful response whose status is \<^verbatim>\<open>invalid\<close> and whose fee is the
  configured minimum fee, and leaves the database as it was: no wallet is touched and no audit
  record is written.
\<close>

theorem VerifyBill_not_found_anonymous:
  assumes "GetByBillNumber st billNumber = Inl err"
  shows "\<exists>response.
     VerifyBill unmarshal nm cfg st None billNumber ip userAgent userRole elapsed = (Inr response, st) \<and>
     Success response \<and> Status response = ''invalid'' \<and> Fee response = VerificationMinFee cfg"
  using assms by (simp add: VerifyBill_def)

theorem VerifyBill_not_found_anonymous_witness:
  "GetByBillNumber (scenario_store (scenario_user RolePublic 3 0 0) (scenario_bill AccessLevelPublic ''u2''))
      ''XX-0000-00-000000'' = Inl ErrBillNotFound \<and>
   snd (VerifyBill Some scenario_numerics defaultPricing
      (scenario_store (scenario_user RolePublic 3 0 0) (scenario_bill AccessLevelPublic ''u2''))
      None ''XX-0000-00-000000'' ''10.0.0.1'' ''curl'' RolePublic 12) =
     scenario_store (scenario_user RolePublic 3 0 0) (scenario_bill AccessLevelPublic ''u2'') \<and>
   map_sum id Status (fst (VerifyBill Some scenario_numerics defaultPricing
      (scenario_store (scenario_user RolePublic 3 0 0) (scenario_bill AccessLevelPublic ''u2''))
      None ''XX-0000-00-000000'' ''10.0.0.1'' ''curl'' RolePublic 12)) = Inr ''invalid''"
proof -
  let ?st = "scenario_store (scenario_user RolePublic 3 0 0) (scenario_bill AccessLevelPublic ''u2'')"
  have m: "GetByBillNumber ?st ''XX-0000-00-000000'' = Inl ErrBillNotFound"
    by (rule scenario_GetByBillNumber_missing)
  from VerifyBill_not_found_anonymous[OF m, of Some scenario_numerics defaultPricing "''10.0.0.1''" "''curl''" RolePublic 12]
  show ?thesis using m by auto
qed

text \<open>
  The status of that response is \<^verbatim>\<open>invalid\<close>, not \<^verbatim>\<open>not_found\<close>.
\<close>

theorem VerifyBill_not_found_status_counterexample:
  "map_sum id Status (fst (VerifyBill Some scenario_numerics defaultPricing
      (scenario_store (scenario_user RolePublic 3 0 0) (scenario_bill AccessLevelPublic ''u2''))
      None ''XX-0000-00-000000'' ''10.0.0.1'' ''curl'' RolePublic 12)) = Inr ''invalid'' \<and>
   map_sum id Status (fst (VerifyBill Some scenario_numerics defaultPricing
      (scenario_store (scenario_user RolePublic 3 0 0) (scenario_bill AccessLevelPublic ''u2''))
      None ''XX-0000-00-000000'' ''10.0.0.1'' ''curl'' RolePublic 12)) \<noteq> Inr VerificationNotFound"
  by (simp add: VerifyBill_def scenario_GetByBillNumber_missing VerificationNotFound_def)

section \<open>What the orchestrator does for an authenticated requester\<close>

lemma scenario_Settle:
  "fee \<le> balance \<Longrightarrow>
   Settle scenario_numerics (scenario_store (scenario_user role balance n credits) bill) ''u1'' fee =
     Inr (scenario_store
            (scenario_user role (decimal_10_2 (balance - fee)) (n + 1)
               (if (n + 1) mod 10 = 0 then credits + 1 else credits)) bill)"
  by (simp add: Settle_def GetByID_def UpdateWalletBalance_def IncrementVerificationCount_def
      scenario_store_def scenario_user_def scenario_numerics_def Let_def)

lemma scenario_users:
  "users (scenario_store user bill) ''u1'' = Some user"
  by (simp add: scenario_store_def)

lemma recordVerification_users:
  "users (recordVerification nm st userID billID billNumber fee wasFree status dataRevealed ip
     userAgent responseTime) = users st"
  by (simp add: recordVerification_def Create_def Let_def)

lemma recordVerification_rule:
  "map PricingRuleApplied (verifications (recordVerification nm st userID billID billNumber fee wasFree
     status dataRevealed ip userAgent responseTime)) =
   map PricingRuleApplied (verifications st) @ [''standard'']"
  by (simp add: recordVerification_def Create_def Let_def)

lemma recordVerification_WasFree:
  "map WasFree (verifications (recordVerification nm st userID billID billNumber fee wasFree
     status dataRevealed ip userAgent responseTime)) =
   map WasFree (verifications st) @ [wasFree]"
  by (simp add: recordVerification_def Create_def Let_def)

lemma scenario_verifications: "verifications (scenario_store user bill) = []"
  by (simp add: scenario_store_def)

text \<open>The found-bill branch of VerifyBill for an authenticated requester, in one equation.\<close>

lemma VerifyBill_found_authenticated:
  assumes "GetByBillNumber st billNumber = Inr bill"
    and "calculatePrice nm cfg st (Some uid) (Amount bill) (AccessLevel bill) = (fee, wasFree, rule)"
    and "(if wasFree then Inr st else Settle nm st uid fee) = Inr st1"
  shows "\<exists>response.
     VerifyBill unmarshal nm cfg st (Some uid) billNumber ip userAgent userRole elapsed =
       (Inr response,
        recordVerification nm st1 (Some uid) (Some (Bill_ID bill)) billNumber fee wasFree
          (if determineAccessLevel userRole bill = ''none'' then VerificationRestricted
           else VerificationValid)
          (Some (getRevealedFields (determineAccessLevel userRole bill))) ip userAgent elapsed) \<and>
     Success response \<and> Fee response = fee \<and>
     Status response =
       (if determineAccessLevel userRole bill = ''none'' then ''restricted'' else ''valid'')"
  using assms
  by (cases wasFree)
     (simp_all add: VerifyBill_def Let_def buildVerificationResponse_def split: option.splits)

section \<open>Access resolver\<close>

text \<open>
  \<^verbatim>\<open>determineAccessLevel\<close> reads the role and the tier only: the issuer of the bill has no
  effect on it.
\<close>

lemma determineAccessLevel_ignores_issuer:
  "determineAccessLevel userRole (bill\<lparr>IssuerID := issuer\<rparr>) = determineAccessLevel userRole bill"
  by (simp add: determineAccessLevel_def)

lemma determineAccessLevel_government:
  "determineAccessLevel RoleInstitutionAdmin (scenario_bill AccessLevelGovernment issuer) = ''none''"
  by (simp add: determineAccessLevel_def scenario_bill_fields level_defs role_defs)

lemma determineAccessLevel_public:
  "determineAccessLevel userRole (scenario_bill AccessLevelPublic issuer) = ''full''"
  by (simp add: determineAccessLevel_def scenario_bill_fields)

lemma scenario_price_government:
  "calculatePrice scenario_numerics defaultPricing (scenario_store (scenario_user role balance n 0) bill)
     (Some ''u1'') 1000 AccessLevelGovernment = (10, False, ''government_financial_premium'')"
  using calculatePrice_gov_fin[OF default_min_max scenario_no_credit]
  by (simp add: defaultPricing_def)

text \<open>
  Claim C3 at a failing input. A government-tier bill whose issuer is the requester
  \<^verbatim>\<open>u1\<close>, an institution administrator: \<^verbatim>\<open>determineAccessLevel\<close> yields
  \<^verbatim>\<open>none\<close>, not \<^verbatim>\<open>full\<close>, and \<^verbatim>\<open>VerifyBill\<close> answers the issuer with the status
  \<^verbatim>\<open>restricted\<close>.
\<close>

theorem issuer_government_bill_not_full:
  "IssuerID (scenario_bill AccessLevelGovernment ''u1'') = ''u1'' \<and>
   determineAccessLevel RoleInstitutionAdmin (scenario_bill AccessLevelGovernment ''u1'') = ''none'' \<and>
   map_sum id Status (fst (VerifyBill Some scenario_numerics defaultPricing
      (scenario_store (scenario_user RoleInstitutionAdmin 100 0 0)
         (scenario_bill AccessLevelGovernment ''u1''))
      (Some ''u1'') ''SI-2025-01-000001'' ''10.0.0.1'' ''curl'' RoleInstitutionAdmin 12)) =
     Inr ''restricted''"
proof -
  let ?b = "scenario_bill AccessLevelGovernment ''u1''"
  let ?st = "scenario_store (scenario_user RoleInstitutionAdmin 100 0 0) ?b"
  have p: "calculatePrice scenario_numerics defaultPricing ?st (Some ''u1'') (Amount ?b) (AccessLevel ?b) =
      (10, False, ''government_financial_premium'')"
    by (simp add: scenario_bill_fields scenario_price_government)
  have s: "(if False then Inr ?st else Settle scenario_numerics ?st ''u1'' 10) =
      Inr (scenario_store (scenario_user RoleInstitutionAdmin (decimal_10_2 (100 - 10)) (0 + 1)
             (if (0 + 1) mod 10 = (0::int) then 0 + 1 else 0)) ?b)"
    by (simp add: scenario_Settle)
  from VerifyBill_found_authenticated[OF scenario_GetByBillNumber p s, of Some "''10.0.0.1''"
      "''curl''" RoleInstitutionAdmin 12]
  show ?thesis
    by (auto simp: determineAccessLevel_government scenario_bill_fields)
qed

section \<open>Loyalty counters\<close>

text \<open>
  What the repository does: the count goes up by one, and a credit is earned exactly when the
  new count is a multiple of ten.
\<close>

lemma IncrementVerificationCount_every_10:
  assumes "users st uid = Some user"
  shows "\<exists>st'. IncrementVerificationCount st uid =
             Inr ((VerificationCount user + 1) mod 10 = 0, st') \<and>
           map_option VerificationCount (users st' uid) = Some (VerificationCount user + 1) \<and>
           map_option FreeVerificationsEarned (users st' uid) =
             Some (FreeVerificationsEarned user +
                     (if (VerificationCount user + 1) mod 10 = 0 then 1 else 0))"
  using assms by (simp add: IncrementVerificationCount_def Let_def)

text \<open>
  A verification paid with a banked credit leaves every row of \<^verbatim>\<open>users\<close> as it was,
  the count included.
\<close>

lemma VerifyBill_free_keeps_users:
  assumes "GetByBillNumber st billNumber = Inr bill"
    and "loyaltyCreditAvailable st (Some uid)"
  shows "users (snd (VerifyBill unmarshal nm cfg st (Some uid) billNumber ip userAgent userRole elapsed)) =
           users st"
proof -
  have p: "calculatePrice nm cfg st (Some uid) (Amount bill) (AccessLevel bill) =
      (0, True, ''loyalty_free'')"
    by (rule calculatePrice_loyalty[OF assms(2)])
  have s: "(if True then Inr st else Settle nm st uid 0) = Inr st" by simp
  from VerifyBill_found_authenticated[OF assms(1) p s, of unmarshal ip userAgent userRole elapsed]
  show ?thesis by (auto simp: recordVerification_users)
qed

lemma scenario_price_public_every_5:
  "calculatePrice scenario_numerics pricing_every_5 (scenario_store (scenario_user role balance n 0) bill)
     (Some ''u1'') 1000 AccessLevelPublic = (5, False, ''percentage_1_percent'')"
proof -
  have m: "VerificationMinFee pricing_every_5 \<le> VerificationMaxFee pricing_every_5"
    by (simp add: pricing_every_5_def defaultPricing_def)
  show ?thesis
    using calculatePrice_public[OF m scenario_no_credit]
    by (simp add: spec_base_def spec_clampLabel_def clampFee_def pricing_every_5_def
        defaultPricing_def scenario_numerics_def)
qed

text \<open>
  Claim C5 at a failing input. The configured loyalty interval is 5 and the requester has
  completed 4 verifications. One more paid verification brings the count to 5, a multiple of
  the configured interval, and \<^verbatim>\<open>free_verifications_earned\<close> stays 0: the repository
  tests the count against the constant 10 and never reads the configuration.
\<close>

theorem loyalty_interval_not_configured:
  "LoyaltyFreeEveryN pricing_every_5 = 5 \<and>
   map_option VerificationCount (users (snd (VerifyBill Some scenario_numerics pricing_every_5
      (scenario_store (scenario_user RolePublic 100 4 0) (scenario_bill AccessLevelPublic ''u2''))
      (Some ''u1'') ''SI-2025-01-000001'' ''10.0.0.1'' ''curl'' RolePublic 12)) ''u1'') = Some 5 \<and>
   map_option FreeVerificationsEarned (users (snd (VerifyBill Some scenario_numerics pricing_every_5
      (scenario_store (scenario_user RolePublic 100 4 0) (scenario_bill AccessLevelPublic ''u2''))
      (Some ''u1'') ''SI-2025-01-000001'' ''10.0.0.1'' ''curl'' RolePublic 12)) ''u1'') = Some 0"
proof -
  let ?b = "scenario_bill AccessLevelPublic ''u2''"
  let ?st = "scenario_store (scenario_user RolePublic 100 4 0) ?b"
  have p: "calculatePrice scenario_numerics pricing_every_5 ?st (Some ''u1'') (Amount ?b) (AccessLevel ?b) =
      (5, False, ''percentage_1_percent'')"
    by (simp add: scenario_bill_fields scenario_price_public_every_5)
  have s: "(if False then Inr ?st else Settle scenario_numerics ?st ''u1'' 5) =
      Inr (scenario_store (scenario_user RolePublic (decimal_10_2 (100 - 5)) (4 + 1)
             (if (4 + 1) mod 10 = (0::int) then 0 + 1 else 0)) ?b)"
    by (simp add: scenario_Settle)
  from VerifyBill_found_authenticated[OF scenario_GetByBillNumber p s, of Some "''10.0.0.1''"
      "''curl''" RolePublic 12]
  show ?thesis
    by (auto simp: recordVerification_users scenario_users scenario_user_fields
        pricing_every_5_def defaultPricing_def)
qed

text \<open>
  Claim C6 at a failing input. A requester with one banked credit and a count of 10
  verifies a registered bill: the call succeeds, the audit record says the fee was waived,
  and \<^verbatim>\<open>verification_count\<close> is still 10.
\<close>

theorem free_verification_not_counted:
  "map_sum id Success (fst (VerifyBill Some scenario_numerics defaultPricing
      (scenario_store (scenario_user RolePublic 100 10 1) (scenario_bill AccessLevelPublic ''u2''))
      (Some ''u1'') ''SI-2025-01-000001'' ''10.0.0.1'' ''curl'' RolePublic 12)) = Inr True \<and>
   map WasFree (verifications (snd (VerifyBill Some scenario_numerics defaultPricing
      (scenario_store (scenario_user RolePublic 100 10 1) (scenario_bill AccessLevelPublic ''u2''))
      (Some ''u1'') ''SI-2025-01-000001'' ''10.0.0.1'' ''curl'' RolePublic 12))) = [True] \<and>
   map_option VerificationCount (users (snd (VerifyBill Some scenario_numerics defaultPricing
      (scenario_store (scenario_user RolePublic 100 10 1) (scenario_bill AccessLevelPublic ''u2''))
      (Some ''u1'') ''SI-2025-01-000001'' ''10.0.0.1'' ''curl'' RolePublic 12)) ''u1'') = Some 10"
proof -
  let ?b = "scenario_bill AccessLevelPublic ''u2''"
  let ?st = "scenario_store (scenario_user RolePublic 100 10 1) ?b"
  have p: "calculatePrice scenario_numerics defaultPricing ?st (Some ''u1'') (Amount ?b) (AccessLevel ?b) =
      (0, True, ''loyalty_free'')"
    by (rule calculatePrice_loyalty[OF scenario_credit])
  have s: "(if True then Inr ?st else Settle scenario_numerics ?st ''u1'' 0) = Inr ?st" by simp
  from VerifyBill_found_authenticated[OF scenario_GetByBillNumber p s, of Some "''10.0.0.1''"
      "''curl''" RolePublic 12]
  show ?thesis
    by (auto simp: recordVerification_users recordVerification_WasFree scenario_users
        scenario_verifications scenario_user_fields)
qed

section \<open>Verification recorder\<close>

text \<open>
  Claim C8 at a failing input. The pricing computation labels the call
  \<^verbatim>\<open>percentage_1_percent\<close>; the audit record \<^verbatim>\<open>VerifyBill\<close> writes stores
  \<^verbatim>\<open>standard\<close>.
\<close>

theorem audit_record_rule_is_standard:
  "snd (snd (calculatePrice scenario_numerics defaultPricing
      (scenario_store (scenario_user RolePublic 100 0 0) (scenario_bill AccessLevelPublic ''u2''))
      (Some ''u1'') 1000 AccessLevelPublic)) = ''percentage_1_percent'' \<and>
   map PricingRuleApplied (verifications (snd (VerifyBill Some scenario_numerics defaultPricing
      (scenario_store (scenario_user RolePublic 100 0 0) (scenario_bill AccessLevelPublic ''u2''))
      (Some ''u1'') ''SI-2025-01-000001'' ''10.0.0.1'' ''curl'' RolePublic 12))) = [''standard'']"
proof -
  let ?b = "scenario_bill AccessLevelPublic ''u2''"
  let ?st = "scenario_store (scenario_user RolePublic 100 0 0) ?b"
  have p: "calculatePrice scenario_numerics defaultPricing ?st (Some ''u1'') (Amount ?b) (AccessLevel ?b) =
      (5, False, ''percentage_1_percent'')"
    by (simp add: scenario_bill_fields scenario_price_public)
  have s: "(if False then Inr ?st else Settle scenario_numerics ?st ''u1'' 5) =
      Inr (scenario_store (scenario_user RolePublic (decimal_10_2 (100 - 5)) (0 + 1)
             (if (0 + 1) mod 10 = (0::int) then 0 + 1 else 0)) ?b)"
    by (simp add: scenario_Settle)
  from VerifyBill_found_authenticated[OF scenario_GetByBillNumber p s, of Some "''10.0.0.1''"
      "''curl''" RolePublic 12]
  show ?thesis
    by (auto simp: recordVerification_rule scenario_verifications scenario_price_public)
qed

section \<open>Hash of a document\<close>

lemma sort_keys_eq:
  "distinct (xs::string list) \<Longrightarrow> distinct ys \<Longrightarrow> set xs = set ys \<Longrightarrow> sort xs = sort ys"
  by (rule sorted_distinct_set_unique) simp_all

lemma normalizeJSON_tree_eq:
  "wf_json d \<Longrightarrow> wf_json d' \<Longrightarrow> tree_eq d d' \<Longrightarrow> normalizeJSON d = normalizeJSON d'"
proof (induction d arbitrary: d')
  case (Leaf a)
  then show ?case by (cases d') simp_all
next
  case (Arr xs)
  then obtain ys where d': "d' = Arr ys" by (cases d') simp_all
  from Arr.prems d' have all2: "list_all2 tree_eq xs ys" by simp
  from Arr.prems d' have wfx: "\<forall>x\<in>set xs. wf_json x" and wfy: "\<forall>y\<in>set ys. wf_json y"
    by (simp_all add: list_all_iff)
  have "list_all2 (\<lambda>x y. normalizeJSON x = normalizeJSON y) xs ys"
    using all2 wfx wfy Arr.IH
    by (induction xs ys rule: list_all2_induct) auto
  then have "map normalizeJSON xs = map normalizeJSON ys"
    by (induction xs ys rule: list_all2_induct) auto
  with d' show ?case by simp
next
  case (Obj xs)
  then obtain ys where d': "d' = Obj ys" by (cases d') simp_all
  from Obj.prems d' have dx: "distinct (map fst xs)" and dy: "distinct (map fst ys)"
    and keys: "set (map fst xs) = set (map fst ys)"
    and wfx: "\<forall>kv\<in>set xs. wf_json (snd kv)" and wfy: "\<forall>kv\<in>set ys. wf_json (snd kv)"
    and rel: "\<forall>kv\<in>set xs. case map_of ys (fst kv) of None \<Rightarrow> False | Some w \<Rightarrow> tree_eq (snd kv) w"
    by (simp_all add: list_all_iff)
  have srt: "sort (map fst xs) = sort (map fst ys)"
    using dx dy keys by (rule sort_keys_eq)
  have vals: "normalizeJSON (the (map_of xs k)) = normalizeJSON (the (map_of ys k))"
    if k: "k \<in> set (map fst xs)" for k
  proof -
    from k obtain v where kv: "(k, v) \<in> set xs" by auto
    with dx have mx: "map_of xs k = Some v" by simp
    from rel kv obtain w where my: "map_of ys k = Some w" and te: "tree_eq v w"
      by (fastforce split: option.splits)
    from my have "(k, w) \<in> set ys" by (rule map_of_SomeD)
    with wfy have ww: "wf_json w" by fastforce
    from wfx kv have wv: "wf_json v" by fastforce
    have "normalizeJSON v = normalizeJSON w"
      using Obj.IH[of "(k, v)" v w] kv wv ww te by simp
    with mx my show ?thesis by simp
  qed
  have "map (\<lambda>k. (k, normalizeJSON (the (map_of xs k)))) (sort (map fst xs)) =
        map (\<lambda>k. (k, normalizeJSON (the (map_of ys k)))) (sort (map fst xs))"
    by (rule map_cong) (simp_all add: vals)
  with srt d' show ?case by simp
qed

text \<open>
  Claim C9. Two documents (Go maps, so every key once at every level) that are equal as
  unordered-key trees have the same result of \<^verbatim>\<open>GenerateBillHash\<close>, whatever the
  serializer, the digest and the encoder are; and whenever \<^verbatim>\<open>GenerateBillHash\<close> of the
  first yields a digest, \<^verbatim>\<open>VerifyBillHash\<close> of the second against that digest returns
  true.
\<close>

theorem GenerateBillHash_key_order:
  assumes "wf_json (Obj d)" and "wf_json (Obj d')" and "tree_eq (Obj d) (Obj d')"
  shows "GenerateBillHash marshal sum256 encodeToString d =
           GenerateBillHash marshal sum256 encodeToString d' \<and>
         (\<forall>digest. GenerateBillHash marshal sum256 encodeToString d = Inr digest \<longrightarrow>
            VerifyBillHash marshal sum256 encodeToString d' digest = Inr True)"
proof -
  from normalizeJSON_tree_eq[OF assms]
  have eq: "GenerateBillHash marshal sum256 encodeToString d =
      GenerateBillHash marshal sum256 encodeToString d'"
    by (simp add: GenerateBillHash_def)
  then show ?thesis by (simp add: VerifyBillHash_def)
qed

lemma demo_normalized:
  "normalizeJSON (Obj demo_doc) =
     Obj [(''a'', Arr [Obj [(''y'', Leaf 3), (''z'', Leaf 2)]]), (''b'', Leaf 1)]"
  by (simp add: demo_doc_def)

theorem GenerateBillHash_key_order_witness:
  "wf_json (Obj demo_doc) \<and> wf_json (Obj demo_doc_permuted) \<and>
   tree_eq (Obj demo_doc) (Obj demo_doc_permuted) \<and>
   GenerateBillHash demo_marshal id demo_encode demo_doc = Inr ''{a:[{y:iii,z:ii,}],b:i,}'' \<and>
   GenerateBillHash demo_marshal id demo_encode demo_doc_permuted = Inr ''{a:[{y:iii,z:ii,}],b:i,}'' \<and>
   VerifyBillHash demo_marshal id demo_encode demo_doc_permuted ''{a:[{y:iii,z:ii,}],b:i,}'' = Inr True"
proof -
  have w1: "wf_json (Obj demo_doc)" by (simp add: demo_doc_def)
  have w2: "wf_json (Obj demo_doc_permuted)" by (simp add: demo_doc_permuted_def)
  have te: "tree_eq (Obj demo_doc) (Obj demo_doc_permuted)"
    by (simp add: demo_doc_def demo_doc_permuted_def insert_commute)
  have e: "demo_encode (Obj [(''a'', Arr [Obj [(''y'', Leaf 3), (''z'', Leaf 2)]]), (''b'', Leaf 1)]) =
      ''{a:[{y:iii,z:ii,}],b:i,}''"
    by (simp add: numeral_eq_Suc)
  have h: "GenerateBillHash demo_marshal id demo_encode demo_doc = Inr ''{a:[{y:iii,z:ii,}],b:i,}''"
    unfolding GenerateBillHash_def Let_def demo_normalized e[symmetric] by (simp add: demo_marshal_def)
  from GenerateBillHash_key_order[OF w1 w2 te, of demo_marshal id demo_encode] h
  have "GenerateBillHash demo_marshal id demo_encode demo_doc_permuted = Inr ''{a:[{y:iii,z:ii,}],b:i,}''"
    and "VerifyBillHash demo_marshal id demo_encode demo_doc_permuted ''{a:[{y:iii,z:ii,}],b:i,}'' = Inr True"
    by auto
  with h w1 w2 te show ?thesis by blast
qed

end
